theory Spec2Isabelle
  imports Main "HOL-Library.Word"
begin

unbundle bit_operations_syntax

section \<open>Go values used by package multicast\<close>

text \<open>
  Go \<open>error\<close> values. \<open>errors.New\<close> gives an \<open>ErrorString\<close>; \<open>fmt.Errorf\<close> is kept
  structured as its format string, its plain operands and the operand of its \<open>%w\<close>
  verb (\<open>None\<close> when there is no \<open>%w\<close> or its operand is a nil error: \<open>fmt\<close> then
  returns an error that wraps nothing); \<open>errors.Join\<close> gives a \<open>JoinError\<close>;
  \<open>OpError op e\<close> is \<open>net.OpError\<close> with its \<open>Op\<close> and \<open>Err\<close> fields.
  A nil error is \<open>None\<close> of type \<open>goerror option\<close>.
\<close>

datatype fmtarg = ArgString string | ArgInt int

datatype goerror =
    ErrorString string
  | Errorf string "fmtarg list" "goerror option"
  | JoinError "goerror list"
  | OpError string goerror

text \<open>\<open>errors.Join\<close>: nil operands are discarded; the result is nil when none is left.\<close>

definition errors_Join :: "goerror option list \<Rightarrow> goerror option" where
  "errors_Join errs =
     (let es = concat (map (\<lambda>e. case e of None \<Rightarrow> [] | Some x \<Rightarrow> [x]) errs)
      in if es = [] then None else Some (JoinError es))"

text \<open>
  The errors that \<open>errors.Is\<close> and \<open>errors.As\<close> visit from an error: the error itself,
  then what its \<open>Unwrap\<close> method gives, depth first.
\<close>

fun chain :: "goerror \<Rightarrow> goerror list" where
  "chain (ErrorString s) = [ErrorString s]"
| "chain (Errorf f as None) = [Errorf f as None]"
| "chain (Errorf f as (Some e)) = Errorf f as (Some e) # chain e"
| "chain (JoinError es) = JoinError es # concat (map chain es)"
| "chain (OpError op e) = OpError op e # chain e"

text \<open>
  \<open>net.Interface\<close> and its \<open>Flags\<close> bit mask (\<open>type Flags uint\<close>, with
  \<open>FlagUp = 1 << 0\<close> and \<open>FlagMulticast = 1 << 4\<close>), and \<open>net.UDPAddr\<close>.
\<close>

record Interface =
  Index :: int
  MTU :: int
  Name :: string
  HardwareAddr :: "8 word list"
  Flags :: "64 word"

definition FlagUp :: "64 word" where
  "FlagUp = 1"

definition FlagMulticast :: "64 word" where
  "FlagMulticast = 16"

record UDPAddr =
  IP :: "8 word list"
  Port :: int
  Zone :: string

section \<open>The operating system, as the library sees it\<close>

text \<open>
  A socket is named by a descriptor. The packages \<open>ipv4\<close> and \<open>ipv6\<close> of
  \<open>golang.org/x/net\<close> offer the same primitives on a \<open>PacketConn\<close>; \<open>pkg\<close> says
  which of the two is called. Of the control message handed to \<open>WriteTo\<close> only
  \<open>IfIndex\<close> is ever set, so a control message is its \<open>IfIndex\<close>.
\<close>

type_synonym fd = nat

type_synonym ControlMessage = int

datatype pkg = ipv4 | ipv6

datatype call =
    Call_ListenUDP string UDPAddr
  | Call_Interfaces
  | Call_JoinGroup pkg fd Interface UDPAddr
  | Call_SetMulticastTTL fd int
  | Call_SetMulticastHopLimit fd int
  | Call_SetMulticastLoopback pkg fd bool
  | Call_SetMulticastInterface pkg fd Interface
  | Call_WriteTo pkg fd "8 word list" ControlMessage UDPAddr
  | Call_Close fd

text \<open>
  The world is the log of the primitive calls made so far, each with the error it
  returned (\<open>None\<close> for nil). What a call returns is decided by the environment from
  that log and the call, so any deterministic behaviour of the host is some \<open>env\<close>.
\<close>

type_synonym event = "call \<times> goerror option"

type_synonym world = "event list"

record env =
  GOOS :: string
  os_reply :: "world \<Rightarrow> call \<Rightarrow> goerror option"
  os_interfaces :: "world \<Rightarrow> goerror + Interface list"

definition os_call :: "env \<Rightarrow> world \<Rightarrow> call \<Rightarrow> goerror option \<times> world" where
  "os_call e w c = (let r = os_reply e w c in (r, w @ [(c, r)]))"

text \<open>\<open>net.ListenUDP\<close>: a new socket, named by the position of its event in the log.\<close>

definition net_ListenUDP :: "env \<Rightarrow> world \<Rightarrow> string \<Rightarrow> UDPAddr \<Rightarrow> (goerror + fd) \<times> world" where
  "net_ListenUDP e w network addr =
     (case os_call e w (Call_ListenUDP network addr) of
        (Some err, w') \<Rightarrow> (Inl err, w')
      | (None, w') \<Rightarrow> (Inr (length w), w'))"

text \<open>\<open>net.Interfaces\<close>.\<close>

definition net_Interfaces :: "env \<Rightarrow> world \<Rightarrow> (goerror + Interface list) \<times> world" where
  "net_Interfaces e w =
     (case os_interfaces e w of
        Inl err \<Rightarrow> (Inl err, w @ [(Call_Interfaces, Some err)])
      | Inr ifs \<Rightarrow> (Inr ifs, w @ [(Call_Interfaces, None)]))"

text \<open>
  Closing a socket. The first \<open>Close\<close> of a descriptor releases it, whatever the
  system call returns; \<open>net\<close> answers every later \<open>Close\<close> of the same descriptor with
  the error \<open>use of closed network connection\<close> inside an \<open>OpError\<close>.
\<close>

definition is_closed :: "world \<Rightarrow> fd \<Rightarrow> bool" where
  "is_closed w s = (Call_Close s \<in> fst ` set w)"

definition ErrClosed :: goerror where
  "ErrClosed = ErrorString ''use of closed network connection''"

definition net_Close :: "env \<Rightarrow> world \<Rightarrow> fd \<Rightarrow> goerror option \<times> world" where
  "net_Close e w s =
     (if is_closed w s
      then (Some (OpError ''close'' ErrClosed), w @ [(Call_Close s, Some (OpError ''close'' ErrClosed))])
      else os_call e w (Call_Close s))"

text \<open>
  A Go call either returns or panics. A method called through a nil \<open>*PacketConn\<close>
  panics with a nil pointer dereference.
\<close>

datatype 'a result = Panic string | Return 'a

definition nil_deref :: string where
  "nil_deref = ''invalid memory address or nil pointer dereference''"

text \<open>
  The methods of \<open>*ipv4.PacketConn\<close> and \<open>*ipv6.PacketConn\<close>. The handle made by
  \<open>NewPacketConn(udpConn)\<close> wraps the socket of \<open>udpConn\<close>, so a non-nil handle is
  that socket's descriptor, and closing the handle closes that socket.
\<close>

definition PacketConn_JoinGroup ::
  "env \<Rightarrow> pkg \<Rightarrow> fd option \<Rightarrow> world \<Rightarrow> Interface \<Rightarrow> UDPAddr \<Rightarrow> (goerror option \<times> world) result" where
  "PacketConn_JoinGroup e p h w ifi gaddr =
     (case h of None \<Rightarrow> Panic nil_deref
      | Some s \<Rightarrow> Return (os_call e w (Call_JoinGroup p s ifi gaddr)))"

definition PacketConn_SetMulticastTTL ::
  "env \<Rightarrow> fd option \<Rightarrow> world \<Rightarrow> int \<Rightarrow> (goerror option \<times> world) result" where
  "PacketConn_SetMulticastTTL e h w ttl =
     (case h of None \<Rightarrow> Panic nil_deref
      | Some s \<Rightarrow> Return (os_call e w (Call_SetMulticastTTL s ttl)))"

definition PacketConn_SetMulticastHopLimit ::
  "env \<Rightarrow> fd option \<Rightarrow> world \<Rightarrow> int \<Rightarrow> (goerror option \<times> world) result" where
  "PacketConn_SetMulticastHopLimit e h w hoplim =
     (case h of None \<Rightarrow> Panic nil_deref
      | Some s \<Rightarrow> Return (os_call e w (Call_SetMulticastHopLimit s hoplim)))"

definition PacketConn_SetMulticastLoopback ::
  "env \<Rightarrow> pkg \<Rightarrow> fd option \<Rightarrow> world \<Rightarrow> bool \<Rightarrow> (goerror option \<times> world) result" where
  "PacketConn_SetMulticastLoopback e p h w on =
     (case h of None \<Rightarrow> Panic nil_deref
      | Some s \<Rightarrow> Return (os_call e w (Call_SetMulticastLoopback p s on)))"

definition PacketConn_SetMulticastInterface ::
  "env \<Rightarrow> pkg \<Rightarrow> fd option \<Rightarrow> world \<Rightarrow> Interface \<Rightarrow> (goerror option \<times> world) result" where
  "PacketConn_SetMulticastInterface e p h w ifi =
     (case h of None \<Rightarrow> Panic nil_deref
      | Some s \<Rightarrow> Return (os_call e w (Call_SetMulticastInterface p s ifi)))"

definition PacketConn_WriteTo ::
  "env \<Rightarrow> pkg \<Rightarrow> fd option \<Rightarrow> world \<Rightarrow> 8 word list \<Rightarrow> ControlMessage \<Rightarrow> UDPAddr
     \<Rightarrow> (goerror option \<times> world) result" where
  "PacketConn_WriteTo e p h w buf wcm addr =
     (case h of None \<Rightarrow> Panic nil_deref
      | Some s \<Rightarrow> Return (os_call e w (Call_WriteTo p s buf wcm addr)))"

definition PacketConn_Close :: "env \<Rightarrow> fd \<Rightarrow> world \<Rightarrow> goerror option \<times> world" where
  "PacketConn_Close e s w = net_Close e w s"

section \<open>multicast.go\<close>

text \<open>
  \<open>type UDPConn struct\<close>: the embedded \<open>net.UDPConn\<close> (its socket), the network, the
  joined interfaces, and the two handles, each nil or not. A slice is a list; a nil
  slice and an empty one are both \<open>[]\<close>, except for the \<open>ifaces\<close> argument of
  \<open>ListenMulticastUDPIfaces\<close>, which the code compares with nil.
\<close>

record UDPConn =
  sock :: fd
  network :: string
  ifaces :: "Interface list"
  ipv4conn :: "fd option"
  ipv6conn :: "fd option"

text \<open>\<open>func multicastInterfaces() ([]net.Interface, error)\<close>\<close>

fun multicastInterfaces_loop :: "Interface list \<Rightarrow> Interface list \<Rightarrow> Interface list" where
  "multicastInterfaces_loop [] mifaces = mifaces"
| "multicastInterfaces_loop (ifi # rest) mifaces =
     (if (Flags ifi AND FlagUp) \<noteq> 0 \<and> (Flags ifi AND FlagMulticast) \<noteq> 0
      then multicastInterfaces_loop rest (mifaces @ [ifi])
      else multicastInterfaces_loop rest mifaces)"

definition multicastInterfaces :: "env \<Rightarrow> world \<Rightarrow> (goerror + Interface list) \<times> world" where
  "multicastInterfaces e w =
     (case net_Interfaces e w of
        (Inl err, w') \<Rightarrow> (Inl err, w')
      | (Inr ifs, w') \<Rightarrow> (Inr (multicastInterfaces_loop ifs []), w'))"

text \<open>\<open>func (c *UDPConn) Close() error\<close>\<close>

definition Close :: "env \<Rightarrow> UDPConn \<Rightarrow> world \<Rightarrow> goerror option \<times> UDPConn \<times> world" where
  "Close e c w =
     (let (err1, c1, w1) =
            (case ipv4conn c of
               None \<Rightarrow> (None, c, w)
             | Some h \<Rightarrow>
                 (let (r, w') = PacketConn_Close e h w
                  in (errors_Join [None, r], c\<lparr>ipv4conn := None\<rparr>, w')));
          (err2, c2, w2) =
            (case ipv6conn c1 of
               None \<Rightarrow> (err1, c1, w1)
             | Some h \<Rightarrow>
                 (let (r, w') = PacketConn_Close e h w1
                  in (errors_Join [err1, r], c1\<lparr>ipv6conn := None\<rparr>, w')));
          (r, w3) = net_Close e w2 (sock c2)
      in (errors_Join [err2, r], c2, w3))"

text \<open>\<open>func (c *UDPConn) JoinMulticastGroup(iface *net.Interface, gaddr *net.UDPAddr) error\<close>\<close>

definition JoinMulticastGroup ::
  "env \<Rightarrow> UDPConn \<Rightarrow> world \<Rightarrow> Interface option \<Rightarrow> UDPAddr option
     \<Rightarrow> (goerror option \<times> UDPConn \<times> world) result" where
  "JoinMulticastGroup e c w iface gaddr =
     (case iface of
        None \<Rightarrow> Return (Some (ErrorString ''multicast: interface cannot be nil''), c, w)
      | Some ifi \<Rightarrow>
     (case gaddr of
        None \<Rightarrow> Return (Some (ErrorString ''multicast: group address cannot be nil''), c, w)
      | Some g \<Rightarrow>
     (if network c = ''udp4'' then
        (case PacketConn_JoinGroup e ipv4 (ipv4conn c) w ifi g of
           Panic p \<Rightarrow> Panic p
         | Return (Some err, w') \<Rightarrow> Return (Some err, c, w')
         | Return (None, w') \<Rightarrow> Return (None, c\<lparr>ifaces := ifaces c @ [ifi]\<rparr>, w'))
      else if network c = ''udp6'' then
        (case PacketConn_JoinGroup e ipv6 (ipv6conn c) w ifi g of
           Panic p \<Rightarrow> Panic p
         | Return (Some err, w') \<Rightarrow> Return (Some err, c, w')
         | Return (None, w') \<Rightarrow> Return (None, c\<lparr>ifaces := ifaces c @ [ifi]\<rparr>, w'))
      else Panic ''unreachable'')))"

text \<open>\<open>func (c *UDPConn) SetMulticastTTL(ttl int) error\<close> and its alias\<close>

definition SetMulticastTTL ::
  "env \<Rightarrow> UDPConn \<Rightarrow> world \<Rightarrow> int \<Rightarrow> (goerror option \<times> UDPConn \<times> world) result" where
  "SetMulticastTTL e c w ttl =
     (if network c = ''udp4'' then
        (case PacketConn_SetMulticastTTL e (ipv4conn c) w ttl of
           Panic p \<Rightarrow> Panic p
         | Return (r, w') \<Rightarrow> Return (r, c, w'))
      else if network c = ''udp6'' then
        (case PacketConn_SetMulticastHopLimit e (ipv6conn c) w ttl of
           Panic p \<Rightarrow> Panic p
         | Return (r, w') \<Rightarrow> Return (r, c, w'))
      else Panic ''unreachable'')"

definition SetMulticastHopLimit ::
  "env \<Rightarrow> UDPConn \<Rightarrow> world \<Rightarrow> int \<Rightarrow> (goerror option \<times> UDPConn \<times> world) result" where
  "SetMulticastHopLimit e c w hoplim = SetMulticastTTL e c w hoplim"

text \<open>\<open>func (c *UDPConn) SetMulticastLoopback(on bool) error\<close>\<close>

definition SetMulticastLoopback ::
  "env \<Rightarrow> UDPConn \<Rightarrow> world \<Rightarrow> bool \<Rightarrow> (goerror option \<times> UDPConn \<times> world) result" where
  "SetMulticastLoopback e c w on =
     (if network c = ''udp4'' then
        (case PacketConn_SetMulticastLoopback e ipv4 (ipv4conn c) w on of
           Panic p \<Rightarrow> Panic p
         | Return (r, w') \<Rightarrow> Return (r, c, w'))
      else if network c = ''udp6'' then
        (case PacketConn_SetMulticastLoopback e ipv6 (ipv6conn c) w on of
           Panic p \<Rightarrow> Panic p
         | Return (r, w') \<Rightarrow> Return (r, c, w'))
      else Panic ''unreachable'')"

text \<open>
  \<open>func (c *UDPConn) WriteToMulticast(buf []byte, addr *net.UDPAddr) error\<close>.
  The two \<open>for ifi := range c.ifaces\<close> loops differ only in the package they call,
  so one loop takes the package and the handle. \<open>wcm\<close> is declared before the loop
  and keeps its value from one round to the next; \<open>errs\<close> holds the errors appended
  so far.
\<close>

definition per_packet_ifindex :: "string \<Rightarrow> bool" where
  "per_packet_ifindex goos = (goos = ''darwin'' \<or> goos = ''ios'' \<or> goos = ''linux'')"

fun WriteToMulticast_loop ::
  "env \<Rightarrow> pkg \<Rightarrow> fd option \<Rightarrow> 8 word list \<Rightarrow> UDPAddr \<Rightarrow> Interface list
     \<Rightarrow> ControlMessage \<Rightarrow> goerror list \<Rightarrow> world \<Rightarrow> (goerror list \<times> world) result" where
  "WriteToMulticast_loop e p h buf addr [] wcm errs w = Return (errs, w)"
| "WriteToMulticast_loop e p h buf addr (ifi # rest) wcm errs w =
     (if per_packet_ifindex (GOOS e) then
        (case PacketConn_WriteTo e p h w buf (Index ifi) addr of
           Panic s \<Rightarrow> Panic s
         | Return (None, w') \<Rightarrow> WriteToMulticast_loop e p h buf addr rest (Index ifi) errs w'
         | Return (Some err, w') \<Rightarrow>
             WriteToMulticast_loop e p h buf addr rest (Index ifi) (errs @ [err]) w')
      else
        (case PacketConn_SetMulticastInterface e p h w ifi of
           Panic s \<Rightarrow> Panic s
         | Return (r1, w1) \<Rightarrow>
             (let errs1 = (case r1 of None \<Rightarrow> errs | Some err \<Rightarrow> errs @ [err])
              in case PacketConn_WriteTo e p h w1 buf wcm addr of
                   Panic s \<Rightarrow> Panic s
                 | Return (None, w') \<Rightarrow> WriteToMulticast_loop e p h buf addr rest wcm errs1 w'
                 | Return (Some err, w') \<Rightarrow>
                     WriteToMulticast_loop e p h buf addr rest wcm (errs1 @ [err]) w')))"

definition WriteToMulticast ::
  "env \<Rightarrow> UDPConn \<Rightarrow> world \<Rightarrow> 8 word list \<Rightarrow> UDPAddr option
     \<Rightarrow> (goerror option \<times> UDPConn \<times> world) result" where
  "WriteToMulticast e c w buf addr =
     (case addr of
        None \<Rightarrow> Return (Some (ErrorString ''multicast: address cannot be nil''), c, w)
      | Some a \<Rightarrow>
     (if length buf = 0 then Return (None, c, w)
      else if network c = ''udp4'' then
        (case WriteToMulticast_loop e ipv4 (ipv4conn c) buf a (ifaces c) 0 [] w of
           Panic s \<Rightarrow> Panic s
         | Return (errs, w') \<Rightarrow> Return (errors_Join (map Some errs), c, w'))
      else if network c = ''udp6'' then
        (case WriteToMulticast_loop e ipv6 (ipv6conn c) buf a (ifaces c) 0 [] w of
           Panic s \<Rightarrow> Panic s
         | Return (errs, w') \<Rightarrow> Return (errors_Join (map Some errs), c, w'))
      else Panic ''unreachable''))"

text \<open>
  \<open>func (c *UDPConn) joinIfaces(ifaces []net.Interface, gaddr *net.UDPAddr) (ok bool, err error)\<close>.
  \<open>fails\<close> starts at 0 and grows by one per round, so it never exceeds
  \<open>len(ifaces)\<close> and Go's \<open>int\<close> does not wrap.
\<close>

fun joinIfaces_loop ::
  "env \<Rightarrow> Interface list \<Rightarrow> UDPAddr \<Rightarrow> UDPConn \<Rightarrow> world \<Rightarrow> goerror option \<Rightarrow> nat
     \<Rightarrow> (UDPConn \<times> world \<times> goerror option \<times> nat) result" where
  "joinIfaces_loop e [] gaddr c w errs fails = Return (c, w, errs, fails)"
| "joinIfaces_loop e (iface # rest) gaddr c w errs fails =
     (case JoinMulticastGroup e c w (Some iface) (Some gaddr) of
        Panic s \<Rightarrow> Panic s
      | Return (None, c', w') \<Rightarrow> joinIfaces_loop e rest gaddr c' w' errs fails
      | Return (Some err, c', w') \<Rightarrow>
          joinIfaces_loop e rest gaddr c' w' (errors_Join [errs, Some err]) (fails + 1))"

definition joinIfaces ::
  "env \<Rightarrow> UDPConn \<Rightarrow> world \<Rightarrow> Interface list \<Rightarrow> UDPAddr
     \<Rightarrow> ((bool \<times> goerror option) \<times> UDPConn \<times> world) result" where
  "joinIfaces e c w ifs gaddr =
     (case joinIfaces_loop e ifs gaddr c w None 0 of
        Panic s \<Rightarrow> Panic s
      | Return (c', w', errs, fails) \<Rightarrow>
          (if fails = length ifs then
             Return ((False, Some (Errorf ''udp: failed to join any interface: %w'' [] errs)), c', w')
           else if errs \<noteq> None \<and> fails < length ifs then
             Return ((True, Some (Errorf ''multicast: failed to join %d/%d interfaces: %w''
                                    [ArgInt (int fails), ArgInt (int (length ifs))] errs)), c', w')
           else Return ((True, None), c', w')))"

text \<open>
  \<open>func ListenMulticastUDPIfaces(network string, ifaces []net.Interface, addr *net.UDPAddr) (*UDPConn, error)\<close>.
  The \<open>ifaces\<close> argument is \<open>None\<close> for a nil slice.
\<close>

definition ListenMulticastUDPIfaces ::
  "env \<Rightarrow> world \<Rightarrow> string \<Rightarrow> Interface list option \<Rightarrow> UDPAddr option
     \<Rightarrow> ((UDPConn option \<times> goerror option) \<times> world) result" where
  "ListenMulticastUDPIfaces e w net ifs addr =
     (case addr of
        None \<Rightarrow> Return ((None, Some (ErrorString ''multicast: addr cannot be nil'')), w)
      | Some a \<Rightarrow>
     (if net \<noteq> ''udp4'' \<and> net \<noteq> ''udp6'' then
        Return ((None, Some (Errorf ''network must be either 'udp4' or 'udp6': %s''
                               [ArgString net] None)), w)
      else
     (case net_ListenUDP e w net a of
        (Inl err, w1) \<Rightarrow> Return ((None, Some err), w1)
      | (Inr udpConn, w1) \<Rightarrow>
     (case (case ifs of
              None \<Rightarrow> multicastInterfaces e w1
            | Some l \<Rightarrow> (Inr l, w1)) of
        (Inl err, w2) \<Rightarrow>
          Return ((None, Some (Errorf ''multicast: failed to get multicast interfaces: %w''
                                 [] (Some err))), w2)
      | (Inr ifs', w2) \<Rightarrow>
          (let conn = \<lparr> sock = udpConn, network = net, ifaces = ifs',
                        ipv4conn = (if net = ''udp4'' then Some udpConn else None),
                        ipv6conn = (if net = ''udp6'' then Some udpConn else None) \<rparr>
           in case joinIfaces e conn w2 ifs' a of
                Panic s \<Rightarrow> Panic s
              | Return ((ok, err), conn', w3) \<Rightarrow>
                  (if \<not> ok \<and> err \<noteq> None then
                     (let (_, _, w4) = Close e conn' w3 in Return ((None, err), w4))
                   else Return ((Some conn', None), w3)))))))"

section \<open>Notions used to state the properties\<close>

text \<open>
  What \<open>ListenMulticastUDPIfaces\<close> establishes for the connection it returns: the
  handle of the connection's network wraps the connection's own socket, and the other
  handle is nil.
\<close>

definition conn_inv :: "UDPConn \<Rightarrow> bool" where
  "conn_inv c =
     (network c = ''udp4'' \<and> ipv4conn c = Some (sock c) \<and> ipv6conn c = None \<or>
      network c = ''udp6'' \<and> ipv4conn c = None \<and> ipv6conn c = Some (sock c))"

definition family :: "UDPConn \<Rightarrow> pkg" where
  "family c = (if network c = ''udp4'' then ipv4 else ipv6)"

text \<open>
  The answers of the host to a run of group joins on the interfaces \<open>ifs\<close>, in order,
  each call seeing the log that the earlier ones left.
\<close>

fun join_attempts ::
  "env \<Rightarrow> pkg \<Rightarrow> fd \<Rightarrow> UDPAddr \<Rightarrow> Interface list \<Rightarrow> world \<Rightarrow> (Interface \<times> goerror option) list" where
  "join_attempts e p s g [] w = []"
| "join_attempts e p s g (ifi # rest) w =
     (ifi, os_reply e w (Call_JoinGroup p s ifi g)) #
       join_attempts e p s g rest
         (w @ [(Call_JoinGroup p s ifi g, os_reply e w (Call_JoinGroup p s ifi g))])"

definition join_event :: "pkg \<Rightarrow> fd \<Rightarrow> UDPAddr \<Rightarrow> Interface \<times> goerror option \<Rightarrow> event" where
  "join_event p s g x = (Call_JoinGroup p s (fst x) g, snd x)"

text \<open>\<open>errs = errors.Join(errs, err)\<close>, repeated for each error of a list.\<close>

definition join_all :: "goerror option \<Rightarrow> goerror list \<Rightarrow> goerror option" where
  "join_all acc xs = foldl (\<lambda>a x. errors_Join [a, Some x]) acc xs"

definition is_send :: "call \<Rightarrow> bool" where
  "is_send c = (case c of Call_WriteTo p s buf wcm a \<Rightarrow> True | _ \<Rightarrow> False)"

text \<open>
  A client of the package that calls the operations other than \<open>Close\<close> one after the
  other on a connection and drops the errors they return.
\<close>

datatype op =
    Op_Join "Interface option" "UDPAddr option"
  | Op_SetTTL int
  | Op_SetHopLimit int
  | Op_SetLoopback bool
  | Op_Write "8 word list" "UDPAddr option"

fun apply_op :: "env \<Rightarrow> op \<Rightarrow> UDPConn \<Rightarrow> world \<Rightarrow> (goerror option \<times> UDPConn \<times> world) result" where
  "apply_op e (Op_Join iface gaddr) c w = JoinMulticastGroup e c w iface gaddr"
| "apply_op e (Op_SetTTL ttl) c w = SetMulticastTTL e c w ttl"
| "apply_op e (Op_SetHopLimit hoplim) c w = SetMulticastHopLimit e c w hoplim"
| "apply_op e (Op_SetLoopback b) c w = SetMulticastLoopback e c w b"
| "apply_op e (Op_Write buf addr) c w = WriteToMulticast e c w buf addr"

fun run_ops :: "env \<Rightarrow> op list \<Rightarrow> UDPConn \<Rightarrow> world \<Rightarrow> (UDPConn \<times> world) result" where
  "run_ops e [] c w = Return (c, w)"
| "run_ops e (x # xs) c w =
     (case apply_op e x c w of
        Panic s \<Rightarrow> Panic s
      | Return (_, c', w') \<Rightarrow> run_ops e xs c' w')"

section \<open>A concrete host\<close>

definition lo0 :: Interface where
  "lo0 = \<lparr> Index = 1, MTU = 65536, Name = ''lo'', HardwareAddr = [], Flags = 53 \<rparr>"

definition eth0 :: Interface where
  "eth0 = \<lparr> Index = 2, MTU = 1500, Name = ''eth0'', HardwareAddr = [2, 0, 0, 0, 0, 1], Flags = 51 \<rparr>"

definition tun0 :: Interface where
  "tun0 = \<lparr> Index = 3, MTU = 1420, Name = ''tun0'', HardwareAddr = [], Flags = 41 \<rparr>"

definition wlan0 :: Interface where
  "wlan0 = \<lparr> Index = 4, MTU = 1500, Name = ''wlan0'', HardwareAddr = [2, 0, 0, 0, 0, 2], Flags = 18 \<rparr>"

definition mdns_addr :: UDPAddr where
  "mdns_addr = \<lparr> IP = [224, 0, 0, 251], Port = 5353, Zone = [] \<rparr>"

text \<open>
  A Linux host on which joining a group on \<open>tun0\<close> fails and sending through
  interface 3 fails, and a Windows host on which \<open>tun0\<close> cannot be made the outbound
  interface; every other call succeeds.
\<close>

definition linux_reply :: "world \<Rightarrow> call \<Rightarrow> goerror option" where
  "linux_reply w c =
     (case c of
        Call_JoinGroup p s ifi g \<Rightarrow>
          (if Name ifi = ''tun0'' then Some (ErrorString ''no such device'') else None)
      | Call_WriteTo p s buf wcm a \<Rightarrow>
          (if wcm = 3 then Some (ErrorString ''network is unreachable'') else None)
      | _ \<Rightarrow> None)"

definition host_linux :: env where
  "host_linux = \<lparr> GOOS = ''linux'', os_reply = linux_reply,
                   os_interfaces = (\<lambda>w. Inr [lo0, eth0, tun0, wlan0]) \<rparr>"

definition windows_reply :: "world \<Rightarrow> call \<Rightarrow> goerror option" where
  "windows_reply w c =
     (case c of
        Call_SetMulticastInterface p s ifi \<Rightarrow>
          (if Name ifi = ''tun0'' then Some (ErrorString ''cannot assign requested address'') else None)
      | _ \<Rightarrow> None)"

definition host_windows :: env where
  "host_windows = \<lparr> GOOS = ''windows'', os_reply = windows_reply,
                     os_interfaces = (\<lambda>w. Inr [lo0, eth0, tun0, wlan0]) \<rparr>"

definition conn4 :: UDPConn where
  "conn4 = \<lparr> sock = 0, network = ''udp4'', ifaces = [lo0, tun0], ipv4conn = Some 0, ipv6conn = None \<rparr>"

section \<open>Lemmas about the operations\<close>

lemma FlagUp_bit: "((x::64 word) AND FlagUp \<noteq> 0) = bit x 0"
  unfolding FlagUp_def by (simp add: and_one_eq bit_0 mod_2_eq_odd)

lemma FlagMulticast_bit: "((x::64 word) AND FlagMulticast \<noteq> 0) = bit x 4"
proof -
  have "(16::64 word) = push_bit 4 1" by simp
  then show ?thesis
    unfolding FlagMulticast_def by (metis bit_iff_and_push_bit_not_eq_0)
qed

lemma multicastInterfaces_loop_filter:
  "multicastInterfaces_loop ifs acc = acc @ filter (\<lambda>i. bit (Flags i) 0 \<and> bit (Flags i) 4) ifs"
  by (induction ifs arbitrary: acc) (simp_all add: FlagUp_bit FlagMulticast_bit)

lemma conn_inv_ifaces [simp]: "conn_inv (c\<lparr>ifaces := xs\<rparr>) = conn_inv c"
  by (simp add: conn_inv_def)

lemma family_ifaces [simp]: "family (c\<lparr>ifaces := xs\<rparr>) = family c"
  by (simp add: family_def)

lemma JoinMulticastGroup_step:
  assumes "conn_inv c"
  shows "JoinMulticastGroup e c w (Some ifi) (Some g) =
     (case os_reply e w (Call_JoinGroup (family c) (sock c) ifi g) of
        None \<Rightarrow> Return (None, c\<lparr>ifaces := ifaces c @ [ifi]\<rparr>,
                        w @ [(Call_JoinGroup (family c) (sock c) ifi g, None)])
      | Some err \<Rightarrow> Return (Some err, c, w @ [(Call_JoinGroup (family c) (sock c) ifi g, Some err)]))"
  using assms
  by (auto simp add: conn_inv_def family_def JoinMulticastGroup_def PacketConn_JoinGroup_def
      os_call_def Let_def split: option.splits)

lemma joinIfaces_loop_run:
  assumes "conn_inv c"
  shows "joinIfaces_loop e ifs g c w errs fails =
     (let atts = join_attempts e (family c) (sock c) g ifs w in
      Return (c\<lparr>ifaces := ifaces c @ map fst (filter (\<lambda>x. snd x = None) atts)\<rparr>,
              w @ map (join_event (family c) (sock c) g) atts,
              join_all errs (List.map_filter snd atts),
              fails + length (List.map_filter snd atts)))"
  using assms
proof (induction ifs arbitrary: c w errs fails)
  case Nil
  then show ?case by (simp add: join_all_def List.map_filter_simps)
next
  case (Cons ifi rest)
  show ?case
  proof (cases "os_reply e w (Call_JoinGroup (family c) (sock c) ifi g)")
    case None
    then show ?thesis
      using Cons.prems Cons.IH [of "c\<lparr>ifaces := ifaces c @ [ifi]\<rparr>"]
      by (simp add: JoinMulticastGroup_step Let_def join_event_def List.map_filter_simps)
  next
    case (Some err)
    then show ?thesis
      using Cons.prems Cons.IH [of c]
      by (simp add: JoinMulticastGroup_step Let_def join_event_def List.map_filter_simps join_all_def)
  qed
qed

lemma length_join_attempts [simp]: "length (join_attempts e p s g ifs w) = length ifs"
  by (induction ifs arbitrary: w) simp_all

lemma map_fst_join_attempts [simp]: "map fst (join_attempts e p s g ifs w) = ifs"
  by (induction ifs arbitrary: w) simp_all

lemma chain_self: "x \<in> set (chain x)"
  by (induction x rule: chain.induct) simp_all

lemma chain_trans: "y \<in> set (chain z) \<Longrightarrow> x \<in> set (chain y) \<Longrightarrow> x \<in> set (chain z)"
proof (induction z rule: chain.induct)
  case (1 s) then show ?case by auto
next
  case (2 f as) then show ?case by auto
next
  case (3 f as e) then show ?case by auto
next
  case (4 es) then show ?case by fastforce
next
  case (5 op e) then show ?case by auto
qed

lemma join_all_snoc: "join_all acc (xs @ [x]) = errors_Join [join_all acc xs, Some x]"
  by (simp add: join_all_def)

lemma join_all_wraps:
  "x \<in> set xs \<Longrightarrow> \<exists>E. join_all acc xs = Some E \<and> x \<in> set (chain E)"
proof (induction xs arbitrary: x rule: rev_induct)
  case Nil
  then show ?case by simp
next
  case (snoc y ys)
  show ?case
  proof (cases "x = y")
    case True
    then show ?thesis
      by (auto simp add: join_all_snoc errors_Join_def chain_self split: option.splits)
  next
    case False
    with snoc.prems have "x \<in> set ys" by simp
    from snoc.IH [OF this] obtain E where E: "join_all acc ys = Some E" "x \<in> set (chain E)"
      by blast
    then show ?thesis
      by (auto simp add: join_all_snoc errors_Join_def)
  qed
qed

section \<open>The properties\<close>

text \<open>
  C6. A fan-out send with an empty payload and a non-nil destination is a no-op on
  every connection: it returns a nil error, the connection (its members and its
  handles) is the one it was, and the log has no new call, so nothing was sent.
\<close>

theorem WriteToMulticast_empty_payload:
  "WriteToMulticast e c w [] (Some a) = Return (None, c, w)"
  by (simp add: WriteToMulticast_def)

text \<open>
  C7. When the network is neither \<open>udp4\<close> nor \<open>udp6\<close>, or the bind address is nil,
  \<open>ListenMulticastUDPIfaces\<close> returns no connection and an argument error, and the
  log is unchanged: \<open>net.ListenUDP\<close> was not called, so no socket was created.
\<close>

theorem ListenMulticastUDPIfaces_invalid_argument:
  assumes "(net \<noteq> ''udp4'' \<and> net \<noteq> ''udp6'') \<or> addr = None"
  shows "ListenMulticastUDPIfaces e w net ifs addr =
     Return ((None,
              Some (if addr = None then ErrorString ''multicast: addr cannot be nil''
                    else Errorf ''network must be either 'udp4' or 'udp6': %s''
                           [ArgString net] None)), w)"
  using assms by (auto simp add: ListenMulticastUDPIfaces_def split: option.splits)

theorem ListenMulticastUDPIfaces_invalid_argument_witness:
  "ListenMulticastUDPIfaces host_linux [] ''udp5'' None (Some mdns_addr) =
     Return ((None, Some (Errorf ''network must be either 'udp4' or 'udp6': %s''
                            [ArgString ''udp5''] None)), [])
   \<and> ListenMulticastUDPIfaces host_linux [] ''udp4'' None None =
     Return ((None, Some (ErrorString ''multicast: addr cannot be nil'')), [])"
  using ListenMulticastUDPIfaces_invalid_argument [of "''udp5''" "Some mdns_addr" host_linux "[]" None]
    ListenMulticastUDPIfaces_invalid_argument [of "''udp4''" None host_linux "[]" None]
  by simp

text \<open>
  C8. \<open>multicastInterfaces\<close> makes one call, \<open>net.Interfaces\<close>, and nothing else. When
  that call succeeds the result is the listed interfaces that have both the up flag
  (bit 0) and the multicast flag (bit 4), in the order of the listing; when it fails
  the error is returned.
\<close>

theorem multicastInterfaces_filter:
  "multicastInterfaces e w =
     (case os_interfaces e w of
        Inl err \<Rightarrow> (Inl err, w @ [(Call_Interfaces, Some err)])
      | Inr ifs \<Rightarrow> (Inr (filter (\<lambda>i. bit (Flags i) 0 \<and> bit (Flags i) 4) ifs),
                    w @ [(Call_Interfaces, None)]))"
  by (simp add: multicastInterfaces_def net_Interfaces_def multicastInterfaces_loop_filter
      split: sum.splits)

text \<open>
  C4. On a connection as \<open>ListenMulticastUDPIfaces\<close> makes it, \<open>JoinMulticastGroup\<close>
  with a non-nil interface and a non-nil group address calls the group join of the
  connection's handle once. If that join succeeds, nil is returned and the interface
  is appended to the members, which grow by exactly one; if it fails with \<open>err\<close>,
  \<open>err\<close> is returned and the connection, its members included, is unchanged.
\<close>

theorem JoinMulticastGroup_members:
  assumes "conn_inv c"
  shows "(os_reply e w (Call_JoinGroup (family c) (sock c) ifi g) = None \<longrightarrow>
            JoinMulticastGroup e c w (Some ifi) (Some g) =
              Return (None, c\<lparr>ifaces := ifaces c @ [ifi]\<rparr>,
                      w @ [(Call_JoinGroup (family c) (sock c) ifi g, None)])
            \<and> length (ifaces (c\<lparr>ifaces := ifaces c @ [ifi]\<rparr>)) = length (ifaces c) + 1)
       \<and> (\<forall>err. os_reply e w (Call_JoinGroup (family c) (sock c) ifi g) = Some err \<longrightarrow>
            JoinMulticastGroup e c w (Some ifi) (Some g) =
              Return (Some err, c, w @ [(Call_JoinGroup (family c) (sock c) ifi g, Some err)]))"
  using assms by (simp add: JoinMulticastGroup_step)

theorem JoinMulticastGroup_members_witness:
  "conn_inv conn4
   \<and> JoinMulticastGroup host_linux conn4 [] (Some eth0) (Some mdns_addr) =
       Return (None, conn4\<lparr>ifaces := [lo0, tun0, eth0]\<rparr>,
               [(Call_JoinGroup ipv4 0 eth0 mdns_addr, None)])
   \<and> JoinMulticastGroup host_linux conn4 [] (Some tun0) (Some mdns_addr) =
       Return (Some (ErrorString ''no such device''), conn4,
               [(Call_JoinGroup ipv4 0 tun0 mdns_addr, Some (ErrorString ''no such device''))])"
proof -
  have inv: "conn_inv conn4"
    by (simp add: conn_inv_def conn4_def)
  have ok: "os_reply host_linux [] (Call_JoinGroup (family conn4) (sock conn4) eth0 mdns_addr) = None"
    by (simp add: host_linux_def linux_reply_def eth0_def)
  have bad: "os_reply host_linux [] (Call_JoinGroup (family conn4) (sock conn4) tun0 mdns_addr)
               = Some (ErrorString ''no such device'')"
    by (simp add: host_linux_def linux_reply_def tun0_def)
  show ?thesis
    using inv ok bad
      JoinMulticastGroup_members [OF inv, of host_linux "[]" eth0 mdns_addr]
      JoinMulticastGroup_members [OF inv, of host_linux "[]" tun0 mdns_addr]
    by (simp add: family_def conn4_def)
qed

end
